theory Spec2Isabelle
  imports Complex_Main "HOL-Library.Word" "HOL-Library.Multiset"
begin

section \<open>The notebook \<open>hdl_dem.ipynb\<close>: data loading and the quiescent spectrum\<close>

text \<open>
  The notebook is a sequence of cells that call numpy and three external packages.
  The cells that compute something themselves are \<open>load_data\<close>, the cell that
  concatenates the two epochs and builds the \<open>FlaresWithCOS\<close> object, and the cell
  that averages the flare-free samples. They are embedded here; the numpy functions
  they call are written out for the shapes the notebook uses (two-dimensional arrays
  indexed by time sample and wavelength bin, reduced along axis 0).
\<close>

subsection \<open>Array elements\<close>

text \<open>
  An element of a float64 array. The special values are explicit, because the notebook
  uses the NaN-ignoring reductions and divides by a count that may be zero. A finite
  double is the real number it denotes. Every arithmetic operation computes the exact
  result and rounds it to binary64: to the nearest representable number, ties to the
  even significand, and to an infinity when the rounded value reaches \<open>2 ^ 1024\<close>.
  The two zeros are not told apart; no operation of the notebook depends on the sign of
  a zero.
\<close>

datatype fl = Fin real | PInf | NInf | NaN

text \<open>Rounding to the nearest integer, ties to even.\<close>

definition rne :: "real \<Rightarrow> int" where
  "rne r = (let f = \<lfloor>r\<rfloor> in
            if r - of_int f < 1 / 2 then f
            else if 1 / 2 < r - of_int f then f + 1
            else if even f then f else f + 1)"

definition pow2 :: "int \<Rightarrow> real" where
  "pow2 e = (if 0 \<le> e then 2 ^ nat e else 1 / 2 ^ nat (- e))"

text \<open>
  The exponent of the last place of the significand of \<open>x\<close>: 52 binary places below
  the leading one, and never below the subnormal spacing \<open>2 ^ - 1074\<close>.
\<close>

definition ulp_exp :: "real \<Rightarrow> int" where
  "ulp_exp x = max (\<lfloor>log 2 \<bar>x\<bar>\<rfloor> - 52) (- 1074)"

definition round_at :: "int \<Rightarrow> real \<Rightarrow> fl" where
  "round_at e x =
     (let y = of_int (rne (x / pow2 e)) * pow2 e
      in if 2 ^ 1024 \<le> y then PInf else if y \<le> - (2 ^ 1024) then NInf else Fin y)"

definition round64 :: "real \<Rightarrow> fl" where
  "round64 x = (if x = 0 then Fin 0 else round_at (ulp_exp x) x)"

fun isnan :: "fl \<Rightarrow> bool" where
  "isnan NaN = True"
| "isnan _ = False"

text \<open>Addition: NaN absorbs, the sum of opposite infinities is NaN, and the sum of two
  finite numbers is rounded.\<close>

fun fadd :: "fl \<Rightarrow> fl \<Rightarrow> fl" where
  "fadd NaN _ = NaN"
| "fadd _ NaN = NaN"
| "fadd PInf NInf = NaN"
| "fadd NInf PInf = NaN"
| "fadd PInf _ = PInf"
| "fadd _ PInf = PInf"
| "fadd NInf _ = NInf"
| "fadd _ NInf = NInf"
| "fadd (Fin a) (Fin b) = round64 (a + b)"

fun fneg :: "fl \<Rightarrow> fl" where
  "fneg (Fin a) = Fin (- a)"
| "fneg PInf = NInf"
| "fneg NInf = PInf"
| "fneg NaN = NaN"

definition fsub :: "fl \<Rightarrow> fl \<Rightarrow> fl" where
  "fsub x y = fadd x (fneg y)"

text \<open>\<open>x**2\<close>, elementwise: the rounded product of \<open>x\<close> with itself.\<close>

fun fsq :: "fl \<Rightarrow> fl" where
  "fsq (Fin a) = round64 (a * a)"
| "fsq PInf = PInf"
| "fsq NInf = PInf"
| "fsq NaN = NaN"

text \<open>\<open>np.sqrt\<close>: correctly rounded, and NaN on a negative argument (numpy warns, it
  does not raise).\<close>

fun fsqrt :: "fl \<Rightarrow> fl" where
  "fsqrt (Fin a) = (if a < 0 then NaN else round64 (sqrt a))"
| "fsqrt PInf = PInf"
| "fsqrt NInf = NaN"
| "fsqrt NaN = NaN"

text \<open>
  Division of a float by a non-negative integer count (\<open>len(...)\<close>, or the count of
  non-NaN entries inside \<open>np.nanmean\<close>). numpy's array division never raises
  \<open>ZeroDivisionError\<close>: \<open>0/0\<close> is NaN and \<open>x/0\<close> is an infinity, with a
  \<open>RuntimeWarning\<close> that leaves the control flow alone. A count is the number of rows
  of an array in memory, far below \<open>2 ^ 53\<close>, so its conversion to a double is exact.
\<close>

fun fdiv_count :: "fl \<Rightarrow> nat \<Rightarrow> fl" where
  "fdiv_count (Fin a) n =
     (if n = 0 then (if a = 0 then NaN else if 0 < a then PInf else NInf)
      else round64 (a / real n))"
| "fdiv_count PInf n = PInf"
| "fdiv_count NInf n = NInf"
| "fdiv_count NaN n = NaN"

text \<open>The comparison \<open>x == 0\<close>: false on NaN and on the infinities.\<close>

fun feq0 :: "fl \<Rightarrow> bool" where
  "feq0 (Fin a) = (a = 0)"
| "feq0 _ = False"

text \<open>What the NaN-ignoring reductions do first: every NaN becomes 0.\<close>

fun nan_to_zero :: "fl \<Rightarrow> fl" where
  "nan_to_zero NaN = Fin 0"
| "nan_to_zero x = x"

subsection \<open>Two-dimensional arrays\<close>

text \<open>
  A two-dimensional array is its list of rows together with the length of a row, so
  that an array without rows still has its trailing dimension, as \<open>shape = (0, nb)\<close>
  has in numpy.
\<close>

record arr2 =
  ncols :: nat
  rows :: "fl list list"

definition wf_arr2 :: "arr2 \<Rightarrow> bool" where
  "wf_arr2 a = (\<forall>r \<in> set (rows a). length r = ncols a)"

definition nrows :: "arr2 \<Rightarrow> nat" where
  "nrows a = length (rows a)"

definition shape :: "arr2 \<Rightarrow> nat \<times> nat" where
  "shape a = (nrows a, ncols a)"

datatype np_error = ValueError | IndexError

text \<open>
  \<open>np.full(shape, w)\<close> with a one-dimensional fill value \<open>w\<close>: the value is
  broadcast against the trailing dimension. A vector of that length becomes every row,
  a vector of length one is stretched, anything else raises \<open>ValueError\<close>.
\<close>

definition broadcast_row :: "nat \<Rightarrow> fl list \<Rightarrow> fl list" where
  "broadcast_row nb w = (if length w = nb then w else replicate nb (hd w))"

definition np_full :: "nat \<times> nat \<Rightarrow> fl list \<Rightarrow> np_error + arr2" where
  "np_full sh w =
     (if length w = snd sh \<or> length w = 1
      then Inr \<lparr>ncols = snd sh, rows = replicate (fst sh) (broadcast_row (snd sh) w)\<rparr>
      else Inl ValueError)"

text \<open>
  \<open>np.append(a, b, axis=0)\<close> is \<open>np.concatenate((a, b), axis=0)\<close>: the trailing
  dimensions must agree, otherwise \<open>ValueError\<close>.
\<close>

definition np_append_axis0 :: "arr2 \<Rightarrow> arr2 \<Rightarrow> np_error + arr2" where
  "np_append_axis0 a b =
     (if ncols a = ncols b then Inr \<lparr>ncols = ncols a, rows = rows a @ rows b\<rparr>
      else Inl ValueError)"

text \<open>\<open>np.sum(a, axis=0)\<close>: the rows are added, elementwise and one after the other,
  onto a row of zeros.\<close>

definition np_sum_axis0 :: "arr2 \<Rightarrow> fl list" where
  "np_sum_axis0 a = foldl (map2 fadd) (replicate (ncols a) (Fin 0)) (rows a)"

definition np_nansum_axis0 :: "arr2 \<Rightarrow> fl list" where
  "np_nansum_axis0 a = np_sum_axis0 (a\<lparr>rows := map (map nan_to_zero) (rows a)\<rparr>)"

text \<open>The number of entries that are not NaN, per column.\<close>

definition np_count_axis0 :: "arr2 \<Rightarrow> nat list" where
  "np_count_axis0 a =
     foldl (map2 (+)) (replicate (ncols a) 0)
       (map (map (\<lambda>x. if isnan x then 0 else 1)) (rows a))"

text \<open>
  \<open>np.nanmean(a, axis=0)\<close>: the NaN-ignoring sum of each column over the number of
  its entries that are not NaN. A column without such an entry gives \<open>0/0\<close>, NaN
  (numpy warns "Mean of empty slice" and returns).
\<close>

definition np_nanmean_axis0 :: "arr2 \<Rightarrow> fl list" where
  "np_nanmean_axis0 a = map2 fdiv_count (np_nansum_axis0 a) (np_count_axis0 a)"

text \<open>
  \<open>a[mq]\<close> with a boolean vector \<open>mq\<close>: the rows whose flag is set, in their order.
  The vector must be as long as the leading dimension, otherwise \<open>IndexError\<close>.
\<close>

definition bool_index :: "arr2 \<Rightarrow> bool list \<Rightarrow> np_error + arr2" where
  "bool_index a keep =
     (if length keep = nrows a
      then Inr \<lparr>ncols = ncols a, rows = map snd (filter fst (zip keep (rows a)))\<rparr>
      else Inl IndexError)"

subsection \<open>\<open>load_data\<close>\<close>

text \<open>
  What the files of one epoch hold: the binned wavelength grid, flux and error that
  \<open>load_binned_data\<close> returns, and the arrays \<open>times.npy\<close> and \<open>orbits.npy\<close>.
  The orbit numbers are 64-bit integers, whose addition wraps around.
\<close>

record epoch_files =
  binned_wavelength :: "fl list"
  binned_flux :: arr2
  binned_err :: arr2
  times_npy :: "fl list"
  orbits_npy :: "64 word list"

text \<open>\<open>load_data\<close> returns the tuple \<open>(wavelength, flux, err, times, orbits)\<close>,
  with the wavelength grid broadcast to the shape of the flux.\<close>

type_synonym epoch = "arr2 \<times> arr2 \<times> arr2 \<times> fl list \<times> 64 word list"

definition load_data :: "epoch_files \<Rightarrow> np_error + epoch" where
  "load_data path =
     (case np_full (shape (binned_flux path)) (binned_wavelength path) of
        Inl e \<Rightarrow> Inl e
      | Inr wavelength \<Rightarrow>
          Inr (wavelength, binned_flux path, binned_err path, times_npy path, orbits_npy path))"

subsection \<open>The two epochs, concatenated\<close>

text \<open>
  \<open>FlaresWithCOS\<close> comes from another package; of the object only the attributes that
  the notebook reads back are used, and they are the keyword arguments it was built from.
\<close>

record fwc =
  wavelength :: arr2
  flux :: arr2
  flux_err :: arr2
  time :: "fl list"
  orbit :: "64 word list"

text \<open>
  The cell evaluates the five arguments in order. \<open>t20[0]\<close> raises \<open>IndexError\<close>
  on an epoch without time stamps.
\<close>

definition make_fwc :: "epoch \<Rightarrow> epoch \<Rightarrow> np_error + fwc" where
  "make_fwc d20 d30 =
     (case d20 of (w20, f20, e20, t20, o20) \<Rightarrow>
     (case d30 of (w30, f30, e30, t30, o30) \<Rightarrow>
     (case np_append_axis0 w20 w30 of Inl x \<Rightarrow> Inl x | Inr w \<Rightarrow>
     (case np_append_axis0 f20 f30 of Inl x \<Rightarrow> Inl x | Inr f \<Rightarrow>
     (case np_append_axis0 e20 e30 of Inl x \<Rightarrow> Inl x | Inr e \<Rightarrow>
     (case t20 of [] \<Rightarrow> Inl IndexError
      | t0 # _ \<Rightarrow>
          Inr \<lparr>wavelength = w, flux = f, flux_err = e,
               time = map (\<lambda>t. fsub t t0) (t20 @ t30),
               orbit = o20 @ map (\<lambda>k. k + 5) o30\<rparr>))))))"

text \<open>\<open>fwc.wavelength[0]\<close>, the grid handed to \<open>setup_linelist\<close>.\<close>

definition wavelength_row0 :: "fwc \<Rightarrow> np_error + fl list" where
  "wavelength_row0 c = (case rows (wavelength c) of [] \<Rightarrow> Inl IndexError | r # _ \<Rightarrow> Inr r)"

subsection \<open>The quiescent spectrum\<close>

text \<open>
  The flare mask has one row per flare and one column per time sample.
  \<open>mq = np.nansum(flare_mask, axis=0) == 0\<close>.
\<close>

definition mq :: "arr2 \<Rightarrow> bool list" where
  "mq flare_mask = map feq0 (np_nansum_axis0 flare_mask)"

definition square_arr :: "arr2 \<Rightarrow> arr2" where
  "square_arr a = a\<lparr>rows := map (map fsq) (rows a)\<rparr>"

text \<open>\<open>np.sqrt(np.nansum(e**2, axis=0)) / len(e)\<close> for the selected error rows \<open>e\<close>.\<close>

definition quadrature_err :: "arr2 \<Rightarrow> fl list" where
  "quadrature_err e =
     map (\<lambda>x. fdiv_count x (nrows e)) (map fsqrt (np_nansum_axis0 (square_arr e)))"

text \<open>The cell: the pair \<open>(mean_quiescent, mean_quiexcent_err)\<close>, or the exception of
  the boolean indexing.\<close>

definition quiescent :: "fwc \<Rightarrow> arr2 \<Rightarrow> np_error + fl list \<times> fl list" where
  "quiescent c flare_mask =
     (case bool_index (flux c) (mq flare_mask) of Inl x \<Rightarrow> Inl x | Inr fq \<Rightarrow>
     (case bool_index (flux_err c) (mq flare_mask) of Inl x \<Rightarrow> Inl x | Inr eq \<Rightarrow>
        Inr (np_nanmean_axis0 fq, quadrature_err eq)))"

subsection \<open>Reading the results\<close>

text \<open>
  The NaN-ignoring sum of a list of doubles, accumulated from the left in binary64, and
  the NaN-ignoring mean: that sum over the number of entries that are not NaN.
\<close>

definition nansum_list :: "fl list \<Rightarrow> fl" where
  "nansum_list xs = foldl fadd (Fin 0) (map nan_to_zero xs)"

definition nanmean_list :: "fl list \<Rightarrow> fl" where
  "nanmean_list xs = fdiv_count (nansum_list xs) (length (filter (\<lambda>x. \<not> isnan x) xs))"

text \<open>The flare-free time samples: the indices that \<open>mq\<close> selects, in increasing
  order and as a set.\<close>

definition flare_free_list :: "arr2 \<Rightarrow> nat list" where
  "flare_free_list flare_mask = filter ((!) (mq flare_mask)) [0..<length (mq flare_mask)]"

definition flare_free :: "arr2 \<Rightarrow> nat set" where
  "flare_free flare_mask = {i. i < length (mq flare_mask) \<and> mq flare_mask ! i}"



subsection \<open>Example data\<close>

text \<open>Two epochs on the same grid of two wavelength bins: two time samples in the
  first, one in the second.\<close>

definition epoch20_ex :: epoch_files where
  "epoch20_ex = \<lparr>binned_wavelength = [Fin 1100, Fin 1101],
                  binned_flux = \<lparr>ncols = 2, rows = [[Fin 6, NaN], [Fin 9, Fin 9]]\<rparr>,
                  binned_err = \<lparr>ncols = 2, rows = [[Fin 3, NaN], [Fin 7, Fin 7]]\<rparr>,
                  times_npy = [Fin 10, Fin 40], orbits_npy = [0, 0]\<rparr>"

definition epoch30_ex :: epoch_files where
  "epoch30_ex = \<lparr>binned_wavelength = [Fin 1100, Fin 1101],
                  binned_flux = \<lparr>ncols = 2, rows = [[Fin 2, Fin 5]]\<rparr>,
                  binned_err = \<lparr>ncols = 2, rows = [[Fin 4, Fin 1]]\<rparr>,
                  times_npy = [Fin 70], orbits_npy = [1]\<rparr>"

text \<open>The object that the notebook builds from them.\<close>

definition fwc_ex :: fwc where
  "fwc_ex = \<lparr>wavelength = \<lparr>ncols = 2, rows = [[Fin 1100, Fin 1101], [Fin 1100, Fin 1101],
                                              [Fin 1100, Fin 1101]]\<rparr>,
             flux = \<lparr>ncols = 2, rows = [[Fin 6, NaN], [Fin 9, Fin 9], [Fin 2, Fin 5]]\<rparr>,
             flux_err = \<lparr>ncols = 2, rows = [[Fin 3, NaN], [Fin 7, Fin 7], [Fin 4, Fin 1]]\<rparr>,
             time = [Fin 0, Fin 30, Fin 60], orbit = [0, 0, 6]\<rparr>"

text \<open>Two flares over three time samples; the second sample is inside a flare, the
  third has no mask value at all.\<close>

definition flare_mask_ex :: arr2 where
  "flare_mask_ex = \<lparr>ncols = 3, rows = [[Fin 0, Fin 1, NaN], [NaN, Fin 0, NaN]]\<rparr>"

text \<open>Masks under which every time sample is inside a flare.\<close>

definition flare_mask_busy :: arr2 where
  "flare_mask_busy = \<lparr>ncols = 3, rows = [[Fin 1, Fin 0, Fin 1], [Fin 0, Fin 1, NaN]]\<rparr>"

definition flare_mask_all :: arr2 where
  "flare_mask_all = \<lparr>ncols = 3, rows = [[Fin 1, Fin 1, Fin 1]]\<rparr>"






section \<open>Auxiliary facts\<close>

subsection \<open>Rounding to binary64\<close>

lemma rne_of_int: "rne (of_int n) = n"
  by (simp add: rne_def)

lemma pow2_powr: "pow2 e = 2 powr of_int e"
  by (simp add: pow2_def powr_real_of_int inverse_eq_divide)

lemma pow2_pos: "0 < pow2 e"
  by (simp add: pow2_powr)

lemma ulp_exp_binade:
  assumes "pow2 k \<le> \<bar>x\<bar>" "\<bar>x\<bar> < pow2 (k + 1)"
  shows "ulp_exp x = max (k - 52) (- 1074)"
proof -
  have "0 < \<bar>x\<bar>" using assms(1) pow2_pos [of k] by linarith
  then have "\<lfloor>log 2 \<bar>x\<bar>\<rfloor> = k"
    using assms by (simp add: floor_log_eq_powr_iff pow2_powr)
  then show ?thesis by (simp add: ulp_exp_def)
qed

text \<open>A number in the binade \<open>[2 ^ k, 2 ^ (k + 1))\<close> is rounded at the spacing of that
  binade.\<close>

lemma round64_binade:
  assumes "pow2 k \<le> \<bar>x\<bar>" "\<bar>x\<bar> < pow2 (k + 1)"
  shows "round64 x = round_at (max (k - 52) (- 1074)) x"
proof -
  have "x \<noteq> 0" using assms(1) pow2_pos [of k] by linarith
  then show ?thesis by (simp add: round64_def ulp_exp_binade [OF assms])
qed

lemma abs_real_of_int_less:
  assumes "\<bar>n\<bar> < 2 ^ 53"
  shows "\<bar>real_of_int n\<bar> < 2 ^ 53"
proof -
  from assms have "real_of_int \<bar>n\<bar> < 2 ^ 53"
    by (simp only: of_int_less_numeral_power_cancel_iff)
  then show ?thesis by simp
qed

lemma ulp_exp_int:
  assumes "n \<noteq> 0" "\<bar>n\<bar> < 2 ^ 53"
  shows "- 52 \<le> ulp_exp (of_int n) \<and> ulp_exp (of_int n) \<le> 0"
proof -
  let ?x = "real_of_int n"
  have x1: "1 \<le> \<bar>?x\<bar>" using assms(1) by linarith
  have x2: "\<bar>?x\<bar> < 2 ^ 53" by (rule abs_real_of_int_less [OF assms(2)])
  have "0 \<le> log 2 \<bar>?x\<bar>" using x1 by simp
  then have k0: "0 \<le> \<lfloor>log 2 \<bar>?x\<bar>\<rfloor>" by simp
  from x2 have "\<bar>?x\<bar> < 2 powr 53" by simp
  then have "log 2 \<bar>?x\<bar> < 53" using x1 by (simp add: log_less_iff)
  then have k1: "\<lfloor>log 2 \<bar>?x\<bar>\<rfloor> \<le> 52" by linarith
  from k0 k1 show ?thesis by (simp add: ulp_exp_def)
qed

lemma round_at_int:
  assumes "- 52 \<le> e" "e \<le> 0" "\<bar>n\<bar> < 2 ^ 53"
  shows "round_at e (of_int n) = Fin (of_int n)"
proof -
  let ?m = "nat (- e)"
  have p: "pow2 e = 1 / 2 ^ ?m"
    using assms(2) by (cases "e = 0") (simp_all add: pow2_def)
  have "real_of_int n / pow2 e = of_int (n * 2 ^ ?m)"
    by (simp add: p)
  then have "rne (real_of_int n / pow2 e) = n * 2 ^ ?m"
    by (simp only: rne_of_int)
  then have y: "of_int (rne (real_of_int n / pow2 e)) * pow2 e = real_of_int n"
    by (simp add: p)
  have "\<bar>real_of_int n\<bar> < 2 ^ 53"
    by (rule abs_real_of_int_less [OF assms(3)])
  moreover have "(2::real) ^ 53 < 2 ^ 1024" by simp
  ultimately have "\<bar>real_of_int n\<bar> < 2 ^ 1024" by linarith
  then have "\<not> 2 ^ 1024 \<le> real_of_int n" "\<not> real_of_int n \<le> - (2 ^ 1024)"
    by linarith+
  then show ?thesis
    by (simp add: round_at_def y Let_def)
qed

text \<open>Every integer below \<open>2 ^ 53\<close> in magnitude is a double.\<close>

lemma round64_of_int:
  assumes "\<bar>n\<bar> < 2 ^ 53"
  shows "round64 (of_int n) = Fin (of_int n)"
proof (cases "n = 0")
  case True
  then show ?thesis by (simp add: round64_def)
next
  case False
  from ulp_exp_int [OF False assms] round_at_int [OF _ _ assms]
  show ?thesis using False by (simp add: round64_def)
qed

lemma round64_0: "round64 0 = Fin 0"
  by (simp add: round64_def)

lemma round64_1: "round64 1 = Fin 1"
  using round64_of_int [of 1] by simp

lemma round64_numeral:
  "\<bar>numeral n :: int\<bar> < 2 ^ 53 \<Longrightarrow> round64 (numeral n) = Fin (numeral n)"
  using round64_of_int [of "numeral n"] by simp

lemma round64_neg_numeral:
  "\<bar>numeral n :: int\<bar> < 2 ^ 53 \<Longrightarrow> round64 (- numeral n) = Fin (- numeral n)"
  using round64_of_int [of "- numeral n"] by simp

lemmas round64_small = round64_0 round64_1 round64_numeral round64_neg_numeral



lemma round64_5_halves: "round64 (5 / 2) = Fin (5 / 2)"
  by (subst round64_binade [where k = 1]) (simp_all add: round_at_def rne_def pow2_def)




lemma sqrt_25: "sqrt 25 = 5"
  by (rule real_sqrt_unique) simp_all

subsection \<open>Reductions along axis 0, column by column\<close>

lemma length_foldl_map2:
  "\<forall>r \<in> set rs. length r = length acc \<Longrightarrow> length (foldl (map2 f) acc rs) = length acc"
  by (induction rs arbitrary: acc) auto

lemma nth_foldl_map2:
  "\<forall>r \<in> set rs. length r = length acc \<Longrightarrow> j < length acc \<Longrightarrow>
   foldl (map2 f) acc rs ! j = foldl f (acc ! j) (map (\<lambda>r. r ! j) rs)"
  by (induction rs arbitrary: acc) auto

lemma length_np_nansum_axis0: "wf_arr2 a \<Longrightarrow> length (np_nansum_axis0 a) = ncols a"
  by (simp add: np_nansum_axis0_def np_sum_axis0_def wf_arr2_def length_foldl_map2)

lemma nth_np_nansum_axis0:
  assumes "wf_arr2 a" "j < ncols a"
  shows "np_nansum_axis0 a ! j = nansum_list (map (\<lambda>r. r ! j) (rows a))"
proof -
  have "map ((\<lambda>r. r ! j) \<circ> map nan_to_zero) (rows a) = map (nan_to_zero \<circ> (\<lambda>r. r ! j)) (rows a)"
    using assms by (intro map_cong) (auto simp: wf_arr2_def)
  moreover have "np_nansum_axis0 a ! j
      = foldl fadd (Fin 0) (map ((\<lambda>r. r ! j) \<circ> map nan_to_zero) (rows a))"
    using assms by (simp add: np_nansum_axis0_def np_sum_axis0_def wf_arr2_def nth_foldl_map2)
  ultimately have "np_nansum_axis0 a ! j
      = foldl fadd (Fin 0) (map (nan_to_zero \<circ> (\<lambda>r. r ! j)) (rows a))"
    by (simp only:)
  then show ?thesis by (simp add: nansum_list_def)
qed

lemma length_np_count_axis0: "wf_arr2 a \<Longrightarrow> length (np_count_axis0 a) = ncols a"
  by (simp add: np_count_axis0_def wf_arr2_def length_foldl_map2)

lemma foldl_add_count:
  "foldl (+) s (map (\<lambda>x. if isnan x then 0 else 1) xs)
     = s + length (filter (\<lambda>x. \<not> isnan x) xs)"
  by (induction xs arbitrary: s) auto

lemma nth_np_count_axis0:
  assumes "wf_arr2 a" "j < ncols a"
  shows "np_count_axis0 a ! j = length (filter (\<lambda>x. \<not> isnan x) (map (\<lambda>r. r ! j) (rows a)))"
proof -
  let ?c = "\<lambda>x. if isnan x then 0 else (1::nat)"
  have "map ((\<lambda>r. r ! j) \<circ> map ?c) (rows a) = map (?c \<circ> (\<lambda>r. r ! j)) (rows a)"
    using assms by (intro map_cong) (auto simp: wf_arr2_def)
  moreover have "np_count_axis0 a ! j = foldl (+) 0 (map ((\<lambda>r. r ! j) \<circ> map ?c) (rows a))"
    using assms by (simp add: np_count_axis0_def wf_arr2_def nth_foldl_map2)
  ultimately have "np_count_axis0 a ! j = foldl (+) 0 (map (?c \<circ> (\<lambda>r. r ! j)) (rows a))"
    by (simp only:)
  then have "np_count_axis0 a ! j = foldl (+) 0 (map ?c (map (\<lambda>r. r ! j) (rows a)))"
    by simp
  then show ?thesis by (simp only: foldl_add_count)
qed

lemma length_np_nanmean_axis0: "wf_arr2 a \<Longrightarrow> length (np_nanmean_axis0 a) = ncols a"
  by (simp add: np_nanmean_axis0_def length_np_nansum_axis0 length_np_count_axis0)

lemma nth_np_nanmean_axis0:
  assumes "wf_arr2 a" "j < ncols a"
  shows "np_nanmean_axis0 a ! j = nanmean_list (map (\<lambda>r. r ! j) (rows a))"
  using assms
  by (simp add: np_nanmean_axis0_def nanmean_list_def length_np_nansum_axis0
      length_np_count_axis0 nth_np_nansum_axis0 nth_np_count_axis0)

lemma wf_square_arr: "wf_arr2 a \<Longrightarrow> wf_arr2 (square_arr a)"
  by (simp add: wf_arr2_def square_arr_def)

lemma length_quadrature_err:
  assumes wf: "wf_arr2 a"
  shows "length (quadrature_err a) = ncols a"
  using length_np_nansum_axis0 [OF wf_square_arr [OF wf]]
  by (simp add: quadrature_err_def square_arr_def)

lemma nth_quadrature_err:
  assumes wf: "wf_arr2 a" and j: "j < ncols a"
  shows "quadrature_err a ! j
       = fdiv_count (fsqrt (nansum_list (map (\<lambda>r. fsq (r ! j)) (rows a)))) (nrows a)"
proof -
  have len: "length (np_nansum_axis0 (square_arr a)) = ncols a"
    using length_np_nansum_axis0 [OF wf_square_arr [OF wf]] by (simp add: square_arr_def)
  have "map (\<lambda>r. r ! j) (map (map fsq) (rows a)) = map (\<lambda>r. fsq (r ! j)) (rows a)"
    using wf j by (auto simp: wf_arr2_def)
  moreover have "np_nansum_axis0 (square_arr a) ! j
      = nansum_list (map (\<lambda>r. r ! j) (map (map fsq) (rows a)))"
    using nth_np_nansum_axis0 [OF wf_square_arr [OF wf]] j by (simp add: square_arr_def)
  ultimately have "np_nansum_axis0 (square_arr a) ! j
      = nansum_list (map (\<lambda>r. fsq (r ! j)) (rows a))"
    by (simp only:)
  then show ?thesis
    using j by (simp add: quadrature_err_def len)
qed

subsection \<open>Boolean indexing, by index\<close>

lemma zip_by_index:
  "length m = length rs \<Longrightarrow> zip m rs = map (\<lambda>i. (m ! i, rs ! i)) [0..<length rs]"
  by (rule nth_equalityI) auto

lemma rows_by_index:
  assumes "length m = length rs"
  shows "map snd (filter fst (zip m rs)) = map ((!) rs) (filter ((!) m) [0..<length rs])"
  by (simp add: zip_by_index [OF assms] filter_map o_def)

lemma bool_index_rows:
  assumes "length m = nrows a"
  shows "bool_index a m = Inr \<lparr>ncols = ncols a,
           rows = map ((!) (rows a)) (filter ((!) m) [0..<length m])\<rparr>"
  using assms rows_by_index [of m "rows a"] by (simp add: bool_index_def nrows_def)


lemma length_filter_upt: "length (filter P [0..<n]) = card {i. i < n \<and> P i}"
proof -
  have "set (filter P [0..<n]) = {i. i < n \<and> P i}" by auto
  moreover have "distinct (filter P [0..<n])" by simp
  ultimately show ?thesis
    by (metis distinct_card)
qed

subsection \<open>The flare-free selection\<close>

lemma length_mq: "wf_arr2 fm \<Longrightarrow> length (mq fm) = ncols fm"
  by (simp add: mq_def length_np_nansum_axis0)

lemma nth_mq:
  assumes "wf_arr2 fm" "j < ncols fm"
  shows "mq fm ! j = feq0 (nansum_list (map (\<lambda>r. r ! j) (rows fm)))"
  using assms by (simp add: mq_def length_np_nansum_axis0 nth_np_nansum_axis0)

lemma set_flare_free_list: "set (flare_free_list fm) = flare_free fm"
  by (auto simp: flare_free_def flare_free_list_def)

lemma length_flare_free_list: "length (flare_free_list fm) = card (flare_free fm)"
  by (simp add: flare_free_list_def flare_free_def length_filter_upt)

lemma bool_index_mq:
  assumes "nrows a = length (mq fm)"
  shows "bool_index a (mq fm) = Inr \<lparr>ncols = ncols a,
           rows = map ((!) (rows a)) (flare_free_list fm)\<rparr>"
  using bool_index_rows [of "mq fm" a] assms by (simp add: flare_free_list_def)

lemma nansum_list_all_NaN: "\<forall>x \<in> set xs. x = NaN \<Longrightarrow> nansum_list xs = Fin 0"
proof -
  have "\<forall>x \<in> set xs. x = NaN \<Longrightarrow> foldl fadd (Fin 0) (map nan_to_zero xs) = Fin 0"
    by (induction xs) (auto simp: round64_0)
  then show "\<forall>x \<in> set xs. x = NaN \<Longrightarrow> nansum_list xs = Fin 0"
    by (simp add: nansum_list_def)
qed

lemma mq_ex: "mq flare_mask_ex = [True, False, True]"
  by (simp add: flare_mask_ex_def mq_def np_nansum_axis0_def np_sum_axis0_def eval_nat_numeral
      round64_small)

lemma flare_free_list_ex: "flare_free_list flare_mask_ex = [0, 2]"
  by (simp add: flare_free_list_def mq_ex upt_rec)

lemma flare_free_ex: "flare_free flare_mask_ex = {0, 2}"
  using set_flare_free_list [of flare_mask_ex] by (simp add: flare_free_list_ex)

lemma mq_busy: "mq flare_mask_busy = [False, False, False]"
  by (simp add: flare_mask_busy_def mq_def np_nansum_axis0_def np_sum_axis0_def eval_nat_numeral
      round64_small)

lemma flare_free_busy: "flare_free flare_mask_busy = {}"
  by (auto simp: flare_free_def mq_busy nth_Cons' split: if_splits)


subsection \<open>Arrays without rows\<close>

lemma nansum_no_rows: "np_nansum_axis0 \<lparr>ncols = nb, rows = []\<rparr> = replicate nb (Fin 0)"
  by (simp add: np_nansum_axis0_def np_sum_axis0_def)

lemma nanmean_no_rows: "np_nanmean_axis0 \<lparr>ncols = nb, rows = []\<rparr> = replicate nb NaN"
  by (simp add: np_nanmean_axis0_def nansum_no_rows np_count_axis0_def zip_replicate)

lemma quadrature_err_no_rows: "quadrature_err \<lparr>ncols = nb, rows = []\<rparr> = replicate nb NaN"
  by (simp add: quadrature_err_def square_arr_def nansum_no_rows nrows_def round64_0)

subsection \<open>Loading and concatenating\<close>

lemma load_data_Inr:
  assumes "load_data p = Inr (w, f, e, t, ob)"
  shows "f = binned_flux p \<and> e = binned_err p \<and> t = times_npy p \<and> ob = orbits_npy p \<and>
         w = \<lparr>ncols = ncols f,
               rows = replicate (nrows f) (broadcast_row (ncols f) (binned_wavelength p))\<rparr>"
  using assms by (auto simp: load_data_def np_full_def shape_def split: if_splits)

lemma load20_ex: "load_data epoch20_ex =
    Inr (\<lparr>ncols = 2, rows = [[Fin 1100, Fin 1101], [Fin 1100, Fin 1101]]\<rparr>,
         binned_flux epoch20_ex, binned_err epoch20_ex, [Fin 10, Fin 40], [0, 0])"
  by (simp add: load_data_def np_full_def shape_def nrows_def broadcast_row_def epoch20_ex_def
      eval_nat_numeral)

lemma load30_ex: "load_data epoch30_ex =
    Inr (\<lparr>ncols = 2, rows = [[Fin 1100, Fin 1101]]\<rparr>,
         binned_flux epoch30_ex, binned_err epoch30_ex, [Fin 70], [1])"
  by (simp add: load_data_def np_full_def shape_def nrows_def broadcast_row_def epoch30_ex_def)

lemma make_fwc_ex:
  "make_fwc (\<lparr>ncols = 2, rows = [[Fin 1100, Fin 1101], [Fin 1100, Fin 1101]]\<rparr>,
         binned_flux epoch20_ex, binned_err epoch20_ex, [Fin 10, Fin 40], [0, 0])
     (\<lparr>ncols = 2, rows = [[Fin 1100, Fin 1101]]\<rparr>,
         binned_flux epoch30_ex, binned_err epoch30_ex, [Fin 70], [1]) = Inr fwc_ex"
  by (simp add: make_fwc_def np_append_axis0_def epoch20_ex_def epoch30_ex_def fwc_ex_def fsub_def
      round64_small)

lemma wavelength_row0_nth:
  "rows (wavelength c) \<noteq> [] \<Longrightarrow> wavelength_row0 c = Inr (rows (wavelength c) ! 0)"
  by (cases "rows (wavelength c)") (simp_all add: wavelength_row0_def)

subsection \<open>Reordering the rows\<close>











section \<open>The quiescent-flux extractor\<close>

text \<open>
  Claim C1. Whenever at least one time sample is flare-free, the cell returns, and in
  every wavelength bin \<open>j\<close> the error vector \<open>mean_quiexcent_err\<close> is the square root of
  the sum of the squared flux errors of the flare-free samples, divided by the number of
  flare-free samples. Square, sum, root and quotient are the binary64 operations; the
  sum runs over the flare-free samples in their order, a NaN square adds nothing to it
  (\<open>np.nansum\<close>), and its sample still counts in the divisor (\<open>len\<close>).
\<close>

theorem quiescent_err_formula:
  assumes wfm: "wf_arr2 flare_mask" and wfe: "wf_arr2 (flux_err c)"
    and nf: "nrows (flux c) = ncols flare_mask"
    and ne: "nrows (flux_err c) = ncols flare_mask"
    and nonempty: "flare_free flare_mask \<noteq> {}"
    and j: "j < ncols (flux_err c)"
  shows "\<exists>mean_quiescent mean_quiexcent_err.
           quiescent c flare_mask = Inr (mean_quiescent, mean_quiexcent_err) \<and>
           length mean_quiexcent_err = ncols (flux_err c) \<and>
           mean_quiexcent_err ! j =
             fdiv_count
               (fsqrt (nansum_list (map (\<lambda>i. fsq (rows (flux_err c) ! i ! j))
                                        (flare_free_list flare_mask))))
               (card (flare_free flare_mask))"
proof -
  let ?idx = "flare_free_list flare_mask"
  let ?E = "rows (flux_err c)"
  let ?fq = "\<lparr>ncols = ncols (flux c), rows = map ((!) (rows (flux c))) ?idx\<rparr>"
  let ?eq = "\<lparr>ncols = ncols (flux_err c), rows = map ((!) ?E) ?idx\<rparr>"
  have lm: "length (mq flare_mask) = ncols flare_mask" by (rule length_mq [OF wfm])
  have bf: "bool_index (flux c) (mq flare_mask) = Inr ?fq"
    by (rule bool_index_mq) (simp add: lm nf)
  have be: "bool_index (flux_err c) (mq flare_mask) = Inr ?eq"
    by (rule bool_index_mq) (simp add: lm ne)
  have idx_lt: "\<forall>i \<in> set ?idx. i < length ?E"
    using lm ne by (auto simp: nrows_def flare_free_list_def)
  have wfq: "wf_arr2 ?eq"
    using wfe idx_lt by (auto simp: wf_arr2_def)
  have "quadrature_err ?eq ! j
      = fdiv_count (fsqrt (nansum_list (map (\<lambda>r. fsq (r ! j)) (rows ?eq)))) (nrows ?eq)"
    by (rule nth_quadrature_err [OF wfq]) (simp add: j)
  moreover have "map (\<lambda>r. fsq (r ! j)) (rows ?eq) = map (\<lambda>i. fsq (?E ! i ! j)) ?idx"
    by (simp add: o_def)
  moreover have "nrows ?eq = card (flare_free flare_mask)"
    by (simp add: nrows_def length_flare_free_list)
  ultimately have "quadrature_err ?eq ! j
      = fdiv_count (fsqrt (nansum_list (map (\<lambda>i. fsq (?E ! i ! j)) ?idx)))
          (card (flare_free flare_mask))"
    by (simp only:)
  moreover have "length (quadrature_err ?eq) = ncols (flux_err c)"
    using length_quadrature_err [OF wfq] by simp
  moreover have "quiescent c flare_mask = Inr (np_nanmean_axis0 ?fq, quadrature_err ?eq)"
    by (simp add: quiescent_def bf be)
  ultimately show ?thesis by blast
qed

text \<open>At the example, samples 0 and 2 are flare-free and bin 0 has the errors 3 and 4:
  the error of the mean is \<open>sqrt (9 + 16) / 2\<close>, and no step rounds.\<close>

theorem quiescent_err_formula_witness:
  "wf_arr2 flare_mask_ex \<and> wf_arr2 (flux_err fwc_ex) \<and> flare_free flare_mask_ex \<noteq> {} \<and>
   (\<exists>m e. quiescent fwc_ex flare_mask_ex = Inr (m, e) \<and> length e = 2 \<and> e ! 0 = Fin (5 / 2))"
proof -
  have 1: "wf_arr2 flare_mask_ex" by (simp add: wf_arr2_def flare_mask_ex_def)
  have 2: "wf_arr2 (flux_err fwc_ex)" by (simp add: wf_arr2_def fwc_ex_def)
  have 3: "nrows (flux fwc_ex) = ncols flare_mask_ex"
    by (simp add: nrows_def fwc_ex_def flare_mask_ex_def)
  have 4: "nrows (flux_err fwc_ex) = ncols flare_mask_ex"
    by (simp add: nrows_def fwc_ex_def flare_mask_ex_def)
  have 5: "flare_free flare_mask_ex \<noteq> {}" by (simp add: flare_free_ex)
  have 6: "0 < ncols (flux_err fwc_ex)" by (simp add: fwc_ex_def)
  have s: "fdiv_count
             (fsqrt (nansum_list (map (\<lambda>i. fsq (rows (flux_err fwc_ex) ! i ! 0))
                                      (flare_free_list flare_mask_ex))))
             (card (flare_free flare_mask_ex)) = Fin (5 / 2)"
    by (simp add: flare_free_list_ex flare_free_ex fwc_ex_def nansum_list_def round64_small
        sqrt_25 round64_5_halves)
  have n: "ncols (flux_err fwc_ex) = 2" by (simp add: fwc_ex_def)
  from quiescent_err_formula [OF 1 2 3 4 5 6, unfolded s n] 1 2 5 show ?thesis
    by auto
qed

text \<open>
  Claim C2, as the code has it. When no time sample is flare-free, the cell does not
  raise: the boolean indexing selects no row, \<open>np.nanmean\<close> and the division by
  \<open>len\<close> compute \<open>0/0\<close>, and both output vectors are NaN in every wavelength bin.
\<close>

theorem quiescent_no_flare_free:
  assumes wfm: "wf_arr2 flare_mask"
    and nf: "nrows (flux c) = ncols flare_mask"
    and ne: "nrows (flux_err c) = ncols flare_mask"
    and empty: "flare_free flare_mask = {}"
  shows "quiescent c flare_mask =
           Inr (replicate (ncols (flux c)) NaN, replicate (ncols (flux_err c)) NaN)"
proof -
  have lm: "length (mq flare_mask) = ncols flare_mask" by (rule length_mq [OF wfm])
  have "set (flare_free_list flare_mask) = {}"
    by (subst set_flare_free_list) (rule empty)
  then have idx: "flare_free_list flare_mask = []"
    by (metis set_empty)
  have bf: "bool_index (flux c) (mq flare_mask) = Inr \<lparr>ncols = ncols (flux c), rows = []\<rparr>"
    using bool_index_mq [of "flux c" flare_mask, unfolded idx] by (simp add: lm nf)
  have be: "bool_index (flux_err c) (mq flare_mask)
      = Inr \<lparr>ncols = ncols (flux_err c), rows = []\<rparr>"
    using bool_index_mq [of "flux_err c" flare_mask, unfolded idx] by (simp add: lm ne)
  show ?thesis
    by (simp add: quiescent_def bf be nanmean_no_rows quadrature_err_no_rows)
qed

theorem quiescent_no_flare_free_witness:
  "wf_arr2 flare_mask_busy \<and> flare_free flare_mask_busy = {} \<and>
   quiescent fwc_ex flare_mask_busy = Inr ([NaN, NaN], [NaN, NaN])"
proof -
  have 1: "wf_arr2 flare_mask_busy" by (simp add: wf_arr2_def flare_mask_busy_def)
  have 2: "nrows (flux fwc_ex) = ncols flare_mask_busy"
    by (simp add: nrows_def fwc_ex_def flare_mask_busy_def)
  have 3: "nrows (flux_err fwc_ex) = ncols flare_mask_busy"
    by (simp add: nrows_def fwc_ex_def flare_mask_busy_def)
  have n: "ncols (flux fwc_ex) = 2" "ncols (flux_err fwc_ex) = 2" by (simp_all add: fwc_ex_def)
  from quiescent_no_flare_free [OF 1 2 3 flare_free_busy] 1 flare_free_busy show ?thesis
    by (simp add: n eval_nat_numeral)
qed

text \<open>
  Claim C2, as the specification states it, fails: with one flare that covers all three
  time samples the flare-free subset is empty, and the cell returns two vectors of NaN
  where the claim asks for an error.
\<close>

theorem quiescent_raises_counterexample:
  "mq flare_mask_all = [False, False, False] \<and>
   quiescent fwc_ex flare_mask_all = Inr ([NaN, NaN], [NaN, NaN])"
  by (simp add: flare_mask_all_def fwc_ex_def quiescent_def bool_index_def mq_def nrows_def
      np_nansum_axis0_def np_sum_axis0_def np_nanmean_axis0_def np_count_axis0_def
      quadrature_err_def square_arr_def eval_nat_numeral round64_small)

text \<open>
  Claim C10. Time sample \<open>j\<close> is flare-free exactly when the NaN-ignoring sum of its
  mask column, as \<open>np.nansum\<close> accumulates it in binary64, compares equal to zero. A
  sample whose mask values are all NaN is therefore flare-free. A flare-free sample is
  among the samples that the quiescent average is taken over: the cell returns, and in
  every wavelength bin the mean is the NaN-ignoring mean of the fluxes of the flare-free
  samples, of which \<open>j\<close> is one.
\<close>

theorem mq_flare_free_iff:
  assumes wfm: "wf_arr2 flare_mask" and j: "j < ncols flare_mask"
    and wff: "wf_arr2 (flux c)"
    and nf: "nrows (flux c) = ncols flare_mask"
    and ne: "nrows (flux_err c) = ncols flare_mask"
  shows "(j \<in> flare_free flare_mask \<longleftrightarrow>
            feq0 (nansum_list (map (\<lambda>r. r ! j) (rows flare_mask)))) \<and>
         ((\<forall>r \<in> set (rows flare_mask). r ! j = NaN) \<longrightarrow> j \<in> flare_free flare_mask) \<and>
         (j \<in> flare_free flare_mask \<longrightarrow>
            (\<exists>mean_quiescent mean_quiexcent_err.
               quiescent c flare_mask = Inr (mean_quiescent, mean_quiexcent_err) \<and>
               j \<in> set (flare_free_list flare_mask) \<and>
               (\<forall>k < ncols (flux c). mean_quiescent ! k =
                  nanmean_list (map (\<lambda>i. rows (flux c) ! i ! k) (flare_free_list flare_mask)))))"
proof -
  let ?idx = "flare_free_list flare_mask"
  let ?F = "rows (flux c)"
  let ?fq = "\<lparr>ncols = ncols (flux c), rows = map ((!) ?F) ?idx\<rparr>"
  let ?eq = "\<lparr>ncols = ncols (flux_err c), rows = map ((!) (rows (flux_err c))) ?idx\<rparr>"
  have lm: "length (mq flare_mask) = ncols flare_mask" by (rule length_mq [OF wfm])
  have mem: "j \<in> flare_free flare_mask \<longleftrightarrow> mq flare_mask ! j"
    using j lm by (simp add: flare_free_def)
  have iff: "j \<in> flare_free flare_mask \<longleftrightarrow>
      feq0 (nansum_list (map (\<lambda>r. r ! j) (rows flare_mask)))"
    using nth_mq [OF wfm j] mem by simp
  have allnan: "(\<forall>r \<in> set (rows flare_mask). r ! j = NaN) \<longrightarrow> j \<in> flare_free flare_mask"
  proof
    assume "\<forall>r \<in> set (rows flare_mask). r ! j = NaN"
    then have "\<forall>x \<in> set (map (\<lambda>r. r ! j) (rows flare_mask)). x = NaN" by simp
    then have "nansum_list (map (\<lambda>r. r ! j) (rows flare_mask)) = Fin 0"
      by (rule nansum_list_all_NaN)
    with iff show "j \<in> flare_free flare_mask" by simp
  qed
  have bf: "bool_index (flux c) (mq flare_mask) = Inr ?fq"
    by (rule bool_index_mq) (simp add: lm nf)
  have be: "bool_index (flux_err c) (mq flare_mask) = Inr ?eq"
    by (rule bool_index_mq) (simp add: lm ne)
  have q: "quiescent c flare_mask = Inr (np_nanmean_axis0 ?fq, quadrature_err ?eq)"
    by (simp add: quiescent_def bf be)
  have idx_lt: "\<forall>i \<in> set ?idx. i < length ?F"
    using lm nf by (auto simp: nrows_def flare_free_list_def)
  have wfq: "wf_arr2 ?fq"
    using wff idx_lt by (auto simp: wf_arr2_def)
  have mean: "\<forall>k < ncols (flux c). np_nanmean_axis0 ?fq ! k =
      nanmean_list (map (\<lambda>i. ?F ! i ! k) ?idx)"
  proof (intro allI impI)
    fix k assume k: "k < ncols (flux c)"
    have "np_nanmean_axis0 ?fq ! k = nanmean_list (map (\<lambda>r. r ! k) (rows ?fq))"
      by (rule nth_np_nanmean_axis0 [OF wfq]) (simp add: k)
    then show "np_nanmean_axis0 ?fq ! k = nanmean_list (map (\<lambda>i. ?F ! i ! k) ?idx)"
      by (simp add: o_def)
  qed
  have sel: "j \<in> flare_free flare_mask \<longrightarrow>
      (\<exists>mean_quiescent mean_quiexcent_err.
         quiescent c flare_mask = Inr (mean_quiescent, mean_quiexcent_err) \<and>
         j \<in> set ?idx \<and>
         (\<forall>k < ncols (flux c). mean_quiescent ! k = nanmean_list (map (\<lambda>i. ?F ! i ! k) ?idx)))"
    using q mean by (simp add: set_flare_free_list)
  from iff allnan sel show ?thesis by blast
qed

text \<open>In the example the third sample has only NaN in its mask column and is kept; the
  second has the column sum 1 and is not. The mean of the first bin is that of the
  fluxes 6 and 2 of the first and the third sample.\<close>

theorem mq_flare_free_iff_witness:
  "wf_arr2 flare_mask_ex \<and> map (\<lambda>r. r ! 2) (rows flare_mask_ex) = [NaN, NaN] \<and>
   2 \<in> flare_free flare_mask_ex \<and> 1 \<notin> flare_free flare_mask_ex \<and>
   flare_free_list flare_mask_ex = [0, 2] \<and>
   (\<exists>m e. quiescent fwc_ex flare_mask_ex = Inr (m, e) \<and> m ! 0 = Fin 4 \<and> m ! 1 = Fin 5)"
proof -
  have 1: "wf_arr2 flare_mask_ex" by (simp add: wf_arr2_def flare_mask_ex_def)
  have 2: "(2::nat) < ncols flare_mask_ex" by (simp add: flare_mask_ex_def)
  have 3: "wf_arr2 (flux fwc_ex)" by (simp add: wf_arr2_def fwc_ex_def)
  have 4: "nrows (flux fwc_ex) = ncols flare_mask_ex"
    by (simp add: nrows_def fwc_ex_def flare_mask_ex_def)
  have 5: "nrows (flux_err fwc_ex) = ncols flare_mask_ex"
    by (simp add: nrows_def fwc_ex_def flare_mask_ex_def)
  have 6: "\<forall>r \<in> set (rows flare_mask_ex). r ! 2 = NaN" by (simp add: flare_mask_ex_def)
  have 7: "1 \<notin> flare_free flare_mask_ex" by (simp add: flare_free_ex)
  have 8: "map (\<lambda>r. r ! 2) (rows flare_mask_ex) = [NaN, NaN]" by (simp add: flare_mask_ex_def)
  have m0: "nanmean_list (map (\<lambda>i. rows (flux fwc_ex) ! i ! 0) (flare_free_list flare_mask_ex))
      = Fin 4"
    by (simp add: flare_free_list_ex fwc_ex_def nanmean_list_def nansum_list_def round64_small)
  have m1: "nanmean_list (map (\<lambda>i. rows (flux fwc_ex) ! i ! 1) (flare_free_list flare_mask_ex))
      = Fin 5"
    by (simp add: flare_free_list_ex fwc_ex_def nanmean_list_def nansum_list_def round64_small)
  have n: "ncols (flux fwc_ex) = 2" by (simp add: fwc_ex_def)
  from mq_flare_free_iff [OF 1 2 3 4 5] 6
  have in2: "2 \<in> flare_free flare_mask_ex"
    and "\<exists>m e. quiescent fwc_ex flare_mask_ex = Inr (m, e) \<and>
           (\<forall>k < ncols (flux fwc_ex). m ! k =
              nanmean_list (map (\<lambda>i. rows (flux fwc_ex) ! i ! k) (flare_free_list flare_mask_ex)))"
    by blast+
  then obtain m e where q: "quiescent fwc_ex flare_mask_ex = Inr (m, e)"
    and mk: "\<forall>k < 2. m ! k =
       nanmean_list (map (\<lambda>i. rows (flux fwc_ex) ! i ! k) (flare_free_list flare_mask_ex))"
    unfolding n by blast
  from mk m0 m1 have "m ! 0 = Fin 4" "m ! 1 = Fin 5" by simp_all
  with q in2 1 7 8 flare_free_list_ex show ?thesis by simp
qed

section \<open>The two epochs\<close>

text \<open>
  Claim C3. For two epochs that \<open>load_data\<close> returned, with flux arrays of one
  trailing dimension and error arrays of one trailing dimension, the three
  concatenations along axis 0 succeed. The flux and error arrays get as many rows as the
  two epochs have together, and so does the wavelength array, whose rows are those of
  the two epochs, unchanged and in order: the rows of an epoch are all its own
  wavelength grid. If the first epoch has a time stamp, the cell returns the object
  made of these arrays.
\<close>

theorem concatenate_epochs:
  assumes l20: "load_data p20 = Inr (w20, f20, e20, t20, o20)"
    and l30: "load_data p30 = Inr (w30, f30, e30, t30, o30)"
    and fc: "ncols f20 = ncols f30" and ec: "ncols e20 = ncols e30"
  shows "\<exists>w f e.
           np_append_axis0 w20 w30 = Inr w \<and> np_append_axis0 f20 f30 = Inr f \<and>
           np_append_axis0 e20 e30 = Inr e \<and>
           nrows f = nrows f20 + nrows f30 \<and> nrows e = nrows e20 + nrows e30 \<and>
           nrows w = nrows f20 + nrows f30 \<and>
           (\<forall>i < nrows f20. rows w ! i = rows w20 ! i \<and>
              rows w ! i = broadcast_row (ncols f20) (binned_wavelength p20)) \<and>
           (\<forall>i < nrows f30. rows w ! (nrows f20 + i) = rows w30 ! i \<and>
              rows w ! (nrows f20 + i) = broadcast_row (ncols f30) (binned_wavelength p30)) \<and>
           (t20 \<noteq> [] \<longrightarrow>
              (\<exists>t ob. make_fwc (w20, f20, e20, t20, o20) (w30, f30, e30, t30, o30)
                     = Inr \<lparr>wavelength = w, flux = f, flux_err = e, time = t, orbit = ob\<rparr>))"
proof -
  let ?g20 = "broadcast_row (ncols f20) (binned_wavelength p20)"
  let ?g30 = "broadcast_row (ncols f30) (binned_wavelength p30)"
  have w20: "w20 = \<lparr>ncols = ncols f20, rows = replicate (nrows f20) ?g20\<rparr>"
    using load_data_Inr [OF l20] by simp
  have w30: "w30 = \<lparr>ncols = ncols f30, rows = replicate (nrows f30) ?g30\<rparr>"
    using load_data_Inr [OF l30] by simp
  let ?w = "\<lparr>ncols = ncols f20, rows = replicate (nrows f20) ?g20 @ replicate (nrows f30) ?g30\<rparr>"
  let ?f = "\<lparr>ncols = ncols f20, rows = rows f20 @ rows f30\<rparr>"
  let ?e = "\<lparr>ncols = ncols e20, rows = rows e20 @ rows e30\<rparr>"
  have aw: "np_append_axis0 w20 w30 = Inr ?w"
    using fc by (simp add: np_append_axis0_def w20 w30)
  have af: "np_append_axis0 f20 f30 = Inr ?f"
    using fc by (simp add: np_append_axis0_def)
  have ae: "np_append_axis0 e20 e30 = Inr ?e"
    using ec by (simp add: np_append_axis0_def)
  have nf: "nrows ?f = nrows f20 + nrows f30" and ne: "nrows ?e = nrows e20 + nrows e30"
    and nw: "nrows ?w = nrows f20 + nrows f30"
    by (simp_all add: nrows_def)
  have r20: "\<forall>i < nrows f20. rows ?w ! i = rows w20 ! i \<and> rows ?w ! i = ?g20"
    by (simp add: w20 nth_append)
  have r30: "\<forall>i < nrows f30. rows ?w ! (nrows f20 + i) = rows w30 ! i \<and>
      rows ?w ! (nrows f20 + i) = ?g30"
    by (simp add: w30 nth_append)
  have mk: "t20 \<noteq> [] \<longrightarrow>
      (\<exists>t ob. make_fwc (w20, f20, e20, t20, o20) (w30, f30, e30, t30, o30)
             = Inr \<lparr>wavelength = ?w, flux = ?f, flux_err = ?e, time = t, orbit = ob\<rparr>)"
    by (cases t20) (simp_all add: make_fwc_def aw af ae)
  from aw af ae nf ne nw r20 r30 mk show ?thesis by blast
qed

theorem concatenate_epochs_witness:
  "\<exists>w f e.
     np_append_axis0 \<lparr>ncols = 2, rows = [[Fin 1100, Fin 1101], [Fin 1100, Fin 1101]]\<rparr>
        \<lparr>ncols = 2, rows = [[Fin 1100, Fin 1101]]\<rparr> = Inr w \<and>
     np_append_axis0 (binned_flux epoch20_ex) (binned_flux epoch30_ex) = Inr f \<and>
     np_append_axis0 (binned_err epoch20_ex) (binned_err epoch30_ex) = Inr e \<and>
     nrows f = 3 \<and> nrows e = 3 \<and> nrows w = 3 \<and>
     rows w ! 0 = [Fin 1100, Fin 1101] \<and> rows w ! 1 = [Fin 1100, Fin 1101] \<and>
     rows w ! 2 = [Fin 1100, Fin 1101]"
proof -
  have fc: "ncols (binned_flux epoch20_ex) = ncols (binned_flux epoch30_ex)"
    by (simp add: epoch20_ex_def epoch30_ex_def)
  have ec: "ncols (binned_err epoch20_ex) = ncols (binned_err epoch30_ex)"
    by (simp add: epoch20_ex_def epoch30_ex_def)
  have n: "nrows (binned_flux epoch20_ex) = 2" "nrows (binned_flux epoch30_ex) = 1"
    "nrows (binned_err epoch20_ex) = 2" "nrows (binned_err epoch30_ex) = 1"
    by (simp_all add: nrows_def epoch20_ex_def epoch30_ex_def)
  have g: "broadcast_row (ncols (binned_flux epoch20_ex)) (binned_wavelength epoch20_ex)
        = [Fin 1100, Fin 1101]"
     "broadcast_row (ncols (binned_flux epoch30_ex)) (binned_wavelength epoch30_ex)
        = [Fin 1100, Fin 1101]"
    by (simp_all add: broadcast_row_def epoch20_ex_def epoch30_ex_def)
  show ?thesis
    using concatenate_epochs [OF load20_ex load30_ex fc ec, unfolded n g]
    by (elim exE conjE) (simp add: eval_nat_numeral)
qed

text \<open>
  Claim C9. The wavelength array that \<open>load_data\<close> returns has the shape of the
  flux, and every row of it is the one-dimensional grid, broadcast. When the first epoch
  has a time sample, row 0 of the concatenated array, the grid handed to
  \<open>setup_linelist\<close>, is the wavelength row of every sample of that epoch.
\<close>

theorem wavelength_row0_valid:
  assumes l20: "load_data p20 = Inr (w20, f20, e20, t20, o20)"
    and l30: "load_data p30 = Inr (w30, f30, e30, t30, o30)"
    and mk: "make_fwc (w20, f20, e20, t20, o20) (w30, f30, e30, t30, o30) = Inr c"
    and pos: "0 < nrows f20"
  shows "nrows w20 = nrows f20 \<and> nrows w30 = nrows f30 \<and>
         (\<forall>i < nrows w20. rows w20 ! i = broadcast_row (ncols f20) (binned_wavelength p20)) \<and>
         (\<forall>i < nrows w30. rows w30 ! i = broadcast_row (ncols f30) (binned_wavelength p30)) \<and>
         (\<exists>g. wavelength_row0 c = Inr g \<and>
              (\<forall>i < nrows f20. rows w20 ! i = g \<and> rows (wavelength c) ! i = g))"
proof -
  let ?g20 = "broadcast_row (ncols f20) (binned_wavelength p20)"
  let ?g30 = "broadcast_row (ncols f30) (binned_wavelength p30)"
  have w20: "w20 = \<lparr>ncols = ncols f20, rows = replicate (nrows f20) ?g20\<rparr>"
    using load_data_Inr [OF l20] by simp
  have w30: "w30 = \<lparr>ncols = ncols f30, rows = replicate (nrows f30) ?g30\<rparr>"
    using load_data_Inr [OF l30] by simp
  have wc: "rows (wavelength c) = rows w20 @ rows w30"
    using mk by (auto simp: make_fwc_def np_append_axis0_def split: if_splits list.splits)
  have n: "nrows w20 = nrows f20" "nrows w30 = nrows f30"
    by (simp_all add: w20 w30 nrows_def)
  have r20: "\<forall>i < nrows w20. rows w20 ! i = ?g20"
    by (simp add: w20 nrows_def)
  have r30: "\<forall>i < nrows w30. rows w30 ! i = ?g30"
    by (simp add: w30 nrows_def)
  have rc: "\<forall>i < nrows f20. rows (wavelength c) ! i = ?g20"
    using r20 n by (simp add: wc nth_append nrows_def)
  have "rows (wavelength c) \<noteq> []"
    using pos n by (auto simp: wc nrows_def)
  then have "wavelength_row0 c = Inr (rows (wavelength c) ! 0)"
    by (rule wavelength_row0_nth)
  with rc pos have "wavelength_row0 c = Inr ?g20" by simp
  with n r20 r30 rc show ?thesis by auto
qed

theorem wavelength_row0_valid_witness:
  "0 < nrows (binned_flux epoch20_ex) \<and>
   wavelength_row0 fwc_ex = Inr [Fin 1100, Fin 1101] \<and>
   rows (wavelength fwc_ex) ! 0 = [Fin 1100, Fin 1101] \<and>
   rows (wavelength fwc_ex) ! 1 = [Fin 1100, Fin 1101]"
proof -
  have pos: "0 < nrows (binned_flux epoch20_ex)" by (simp add: nrows_def epoch20_ex_def)
  have n: "nrows (binned_flux epoch20_ex) = 2" by (simp add: nrows_def epoch20_ex_def)
  from wavelength_row0_valid [OF load20_ex load30_ex make_fwc_ex pos, unfolded n]
  obtain g where g: "wavelength_row0 fwc_ex = Inr g"
    and r: "\<forall>i<2. rows (wavelength fwc_ex) ! i = g" by blast
  from r have "rows (wavelength fwc_ex) ! 0 = g" "rows (wavelength fwc_ex) ! 1 = g" by simp_all
  moreover have "rows (wavelength fwc_ex) ! 0 = [Fin 1100, Fin 1101]" by (simp add: fwc_ex_def)
  ultimately show ?thesis using g pos by simp
qed

section \<open>The order of the flare-free samples\<close>




end
